theory Spec2Isabelle
  imports Complex_Main "HOL-Library.AList"
begin

section \<open>Python values used by the session service\<close>

subsection \<open>Strings\<close>

text \<open>
  A Python \<open>str\<close> is a sequence of Unicode code points: \<open>len\<close> counts code points and
  \<open>strip\<close> removes Unicode white space. A string is therefore a list of code points;
  \<open>lit\<close> turns an ASCII literal into one.
\<close>

type_synonym pystr = "nat list"

definition lit :: "string \<Rightarrow> pystr" where
  "lit s = map of_char s"

text \<open>The code points for which \<open>str.isspace\<close> holds (the characters \<open>strip\<close> removes).\<close>

definition isspace :: "nat \<Rightarrow> bool" where
  "isspace c = (c \<in> set [9, 10, 11, 12, 13, 28, 29, 30, 31, 32, 133, 160, 5760,
     8192, 8193, 8194, 8195, 8196, 8197, 8198, 8199, 8200, 8201, 8202,
     8232, 8233, 8239, 8287, 12288])"

definition strip :: "pystr \<Rightarrow> pystr" where
  "strip s = rev (dropWhile isspace (rev (dropWhile isspace s)))"

text \<open>\<open>startswith s p\<close> is \<open>s.startswith(p)\<close>; \<open>contains s p\<close> is \<open>p in s\<close>.\<close>

fun startswith :: "pystr \<Rightarrow> pystr \<Rightarrow> bool" where
  "startswith s [] = True"
| "startswith [] (p # ps) = False"
| "startswith (c # cs) (p # ps) = (c = p \<and> startswith cs ps)"

fun contains :: "pystr \<Rightarrow> pystr \<Rightarrow> bool" where
  "contains [] p = (p = [])"
| "contains (c # cs) p = (startswith (c # cs) p \<or> contains cs p)"

text \<open>
  \<open>split sep s\<close> is \<open>s.split(sep)\<close> for a non-empty separator (every separator in the
  source is a non-empty literal): the text is cut at each occurrence of the separator,
  found from left to right, and there is always at least one piece.
\<close>

function split_from :: "pystr \<Rightarrow> pystr \<Rightarrow> pystr \<Rightarrow> pystr list" where
  "split_from sep cur [] = [cur]"
| "split_from sep cur (c # cs) =
     (if sep \<noteq> [] \<and> startswith (c # cs) sep
      then cur # split_from sep [] (drop (length sep) (c # cs))
      else split_from sep (cur @ [c]) cs)"
  by pat_completeness auto
termination
  by (relation "measure (\<lambda>(sep, cur, s). length s)") auto

definition split :: "pystr \<Rightarrow> pystr \<Rightarrow> pystr list" where
  "split sep s = split_from sep [] s"

subsection \<open>Errors\<close>

text \<open>
  The exceptions the code raises or catches, each with its message (\<open>str(e)\<close>);
  \<open>ProcessLookupError\<close> is raised without one. \<open>OtherError\<close> stands for an exception of
  any other class. \<open>JSONDecodeError\<close>, the two Unicode errors and pydantic's
  \<open>ValidationError\<close> are subclasses of \<open>ValueError\<close>.
\<close>

datatype error =
    ValueError pystr
  | JSONDecodeError pystr
  | UnicodeDecodeError pystr
  | UnicodeEncodeError pystr
  | ValidationError pystr
  | TimeoutError pystr
  | TypeError pystr
  | AttributeError pystr
  | ProcessLookupError
  | OtherError pystr

fun str_of_error :: "error \<Rightarrow> pystr" where
  "str_of_error (ValueError m) = m"
| "str_of_error (JSONDecodeError m) = m"
| "str_of_error (UnicodeDecodeError m) = m"
| "str_of_error (UnicodeEncodeError m) = m"
| "str_of_error (ValidationError m) = m"
| "str_of_error (TimeoutError m) = m"
| "str_of_error (TypeError m) = m"
| "str_of_error (AttributeError m) = m"
| "str_of_error ProcessLookupError = []"
| "str_of_error (OtherError m) = m"

subsection \<open>JSON values\<close>

text \<open>
  A JSON number read by \<open>json.loads\<close> is an \<open>int\<close> or a \<open>float\<close>; Python compares the
  two exactly, so both are rationals here, with the three non-finite floats that
  \<open>json.loads\<close> accepts (\<open>Infinity\<close>, \<open>-Infinity\<close>, \<open>NaN\<close>).
\<close>

datatype pynum = Num rat | PosInf | NegInf | NaN

datatype jval =
    JNull
  | JBool bool
  | JNum pynum
  | JStr pystr
  | JArr "jval list"
  | JObj "(pystr \<times> jval) list"

text \<open>
  The dict that \<open>json.loads\<close> returns for a JSON object: its items in order, each key
  once; \<open>map_of d k\<close> is \<open>d.get(k)\<close>.
\<close>

type_synonym jdict = "(pystr \<times> jval) list"

text \<open>\<open>num_gt a b\<close> is Python's \<open>a > b\<close> on numbers.\<close>

fun num_gt :: "pynum \<Rightarrow> pynum \<Rightarrow> bool" where
  "num_gt (Num a) (Num b) = (b < a)"
| "num_gt (Num a) NegInf = True"
| "num_gt PosInf (Num b) = True"
| "num_gt PosInf NegInf = True"
| "num_gt _ _ = False"

text \<open>
  A \<open>bool\<close> is an \<open>int\<close> in Python (\<open>True == 1\<close>); every other JSON value is not a number
  and comparing it with a number by \<open>>\<close> raises \<open>TypeError\<close>.
\<close>

fun num_of :: "jval \<Rightarrow> pynum option" where
  "num_of (JNum n) = Some n"
| "num_of (JBool b) = Some (Num (if b then 1 else 0))"
| "num_of _ = None"

section \<open>Sessions\<close>

record message =
  msg_id :: pystr
  msg_type :: pystr
  content :: jval
  timestamp :: pystr
  metadata :: "(pystr \<times> jval) list option"

text \<open>
  \<open>PersistentClineSession\<close>. The process handle is the pid of the spawned process;
  \<open>last_response_id\<close> is the attribute \<open>_last_response_id\<close>, absent (\<open>None\<close>) until the
  first response is consumed. It only ever holds a value that compared greater than a
  number, so it is a number.
\<close>

record session =
  session_id :: pystr
  workspace_path :: pystr
  created_at :: pystr
  messages :: "message list"
  status :: pystr
  cli_process :: "nat option"
  input_file :: "pystr option"
  output_file :: "pystr option"
  last_response_id :: "pynum option"

text \<open>
  What one iteration of a polling loop observes of the outside world: the clock (all
  \<open>time.time()\<close> readings of one iteration are taken at one instant), the return code of
  the process (\<open>None\<close> while it runs), the decoded output that \<open>communicate()\<close> yields
  once it has exited (\<open>Inl\<close> when \<open>decode()\<close> raises), and the output file: missing,
  there but raising when opened or read, or there with the text that \<open>f.read()\<close>
  returns.
\<close>

datatype file_obs = Missing | Unreadable | Content pystr

record poll =
  now :: rat
  returncode :: "int option"
  proc_stdout :: "error + pystr"
  proc_stderr :: "error + pystr"
  out_file :: file_obs

section \<open>Waiting for a response\<close>

text \<open>
  The body of the \<open>for line in reversed(lines)\<close> loop of \<open>_wait_for_response\<close>, on the
  lines still to visit. \<open>loads\<close> is \<open>json.loads\<close>: on a line that starts with an opening
  brace it returns a dict or raises. \<open>JSONDecodeError\<close> is caught at the line; any other
  exception, and the \<open>TypeError\<close> of comparing a sequence number that is not a number,
  leaves the loop and is caught and logged by the handler around the pass.
\<close>

datatype scan_result = Accepted jdict pynum | Exhausted | Raised

definition sequence_of :: "jdict \<Rightarrow> jval" where
  "sequence_of response_data =
     (case map_of response_data (lit ''messageId'') of None \<Rightarrow> JNum (Num 0) | Some v \<Rightarrow> v)"

fun scan_lines :: "(pystr \<Rightarrow> error + jdict) \<Rightarrow> pynum \<Rightarrow> pystr list \<Rightarrow> scan_result" where
  "scan_lines loads last_id [] = Exhausted"
| "scan_lines loads last_id (l # ls) =
     (let line = strip l in
      if line \<noteq> [] \<and> line \<noteq> lit ''SESSION_READY'' \<and> startswith line (lit ''{'') then
        (case loads line of
           Inl (JSONDecodeError m) \<Rightarrow> scan_lines loads last_id ls
         | Inl e \<Rightarrow> Raised
         | Inr response_data \<Rightarrow>
             if map_of response_data (lit ''response'') \<noteq> None \<or> map_of response_data (lit ''error'') \<noteq> None then
               (case num_of (sequence_of response_data) of
                  None \<Rightarrow> Raised
                | Some response_id \<Rightarrow>
                    if num_gt response_id last_id then Accepted response_data response_id
                    else scan_lines loads last_id ls)
             else scan_lines loads last_id ls)
      else scan_lines loads last_id ls)"

text \<open>
  The scan goes past a line: it does not accept it and no exception leaves the loop at
  it. Such a line does not start with a brace, or does not parse as JSON, or parses to
  a record without a \<open>response\<close> and an \<open>error\<close> field, or to one whose sequence number
  is not greater than the last one consumed.
\<close>

definition passed_over :: "(pystr \<Rightarrow> error + jdict) \<Rightarrow> pynum \<Rightarrow> pystr \<Rightarrow> bool" where
  "passed_over loads last_id x = (scan_lines loads last_id [x] = Exhausted)"

text \<open>
  One pass over the output file. A missing file, an unreadable one, an empty one and any
  exception inside the pass all lead to the next sleep.
\<close>

definition read_response :: "(pystr \<Rightarrow> error + jdict) \<Rightarrow> pynum \<Rightarrow> file_obs \<Rightarrow> (jdict \<times> pynum) option" where
  "read_response loads last_id f =
     (case f of
        Content raw \<Rightarrow>
          (let content = strip raw in
           if content \<noteq> [] then
             (case scan_lines loads last_id (rev (split (lit [CHR 0x0A]) content)) of
                Accepted response_data response_id \<Rightarrow> Some (response_data, response_id)
              | _ \<Rightarrow> None)
           else None)
      | _ \<Rightarrow> None)"

definition max_wait :: rat where
  "max_wait = 300"

text \<open>
  The \<open>while\<close> loop of \<open>_wait_for_response\<close> over the polls made before the deadline; when
  they are used up the next clock reading is past the deadline.
\<close>

fun response_loop :: "(pystr \<Rightarrow> error + jdict) \<Rightarrow> rat \<Rightarrow> pynum \<Rightarrow> session \<Rightarrow> poll list \<Rightarrow> error + (jdict \<times> session)" where
  "response_loop loads start_time last_id s [] =
     Inl (TimeoutError (lit ''No response received within 300 seconds''))"
| "response_loop loads start_time last_id s (p # ps) =
     (if now p - start_time < max_wait then
        (case read_response loads last_id (out_file p) of
           Some (response_data, response_id) \<Rightarrow>
             Inr (response_data, s\<lparr>last_response_id := Some response_id\<rparr>)
         | None \<Rightarrow> response_loop loads start_time last_id s ps)
      else Inl (TimeoutError (lit ''No response received within 300 seconds'')))"

definition last_consumed :: "session \<Rightarrow> pynum" where
  "last_consumed s = (case last_response_id s of None \<Rightarrow> Num 0 | Some n \<Rightarrow> n)"

definition wait_for_response :: "(pystr \<Rightarrow> error + jdict) \<Rightarrow> rat \<Rightarrow> session \<Rightarrow> poll list \<Rightarrow> error + (jdict \<times> session)" where
  "wait_for_response loads start_time s polls =
     response_loop loads start_time (last_consumed s) s polls"

text \<open>
  Successive waits on one session, each with its own start time and polls: the sequence
  numbers consumed, in order. A wait that times out consumes nothing.
\<close>

fun consumed :: "(pystr \<Rightarrow> error + jdict) \<Rightarrow> session \<Rightarrow> (rat \<times> poll list) list \<Rightarrow> pynum list" where
  "consumed loads s [] = []"
| "consumed loads s ((start_time, polls) # ws) =
     (case wait_for_response loads start_time s polls of
        Inl e \<Rightarrow> consumed loads s ws
      | Inr (response_data, s') \<Rightarrow> last_consumed s' # consumed loads s' ws)"

section \<open>The readiness handshake\<close>

definition check_interval :: rat where
  "check_interval = 10"

definition shows_ready :: "file_obs \<Rightarrow> bool" where
  "shows_ready f =
     (case f of
        Content raw \<Rightarrow>
          contains (strip raw) (lit ''SESSION_READY'') \<or> contains (strip raw) (lit ''READY'')
      | _ \<Rightarrow> False)"

definition ready_timeout :: "session \<Rightarrow> error" where
  "ready_timeout s =
     TimeoutError (lit ''Session '' @ session_id s @ lit '' failed to become ready within 300 seconds'')"

text \<open>
  The \<open>while\<close> loop of \<open>_wait_for_session_ready_with_logs\<close>. The process is looked at
  only inside the periodic logging block; when it has exited its output is read, decoded
  for the log, and the loop is left by \<open>break\<close>, which reaches the \<open>raise TimeoutError\<close>
  after the loop. What the logging block writes to the log is not part of the result.
  The loop runs over the polls made before the deadline; when they are used up the next
  clock reading is past the deadline.
\<close>

fun ready_loop :: "session \<Rightarrow> rat \<Rightarrow> rat \<Rightarrow> poll list \<Rightarrow> error + unit" where
  "ready_loop s start_time last_log_time [] = Inl (ready_timeout s)"
| "ready_loop s start_time last_log_time (p # ps) =
     (if now p - start_time < max_wait then
        (if now p - last_log_time \<ge> check_interval then
           (if cli_process s \<noteq> None \<and> returncode p \<noteq> None then
              (case proc_stdout p of
                 Inl e \<Rightarrow> Inl e
               | Inr out \<Rightarrow>
                   (case proc_stderr p of
                      Inl e \<Rightarrow> Inl e
                    | Inr err \<Rightarrow> Inl (ready_timeout s)))
            else if shows_ready (out_file p) then Inr ()
            else ready_loop s start_time (now p) ps)
         else if shows_ready (out_file p) then Inr ()
         else ready_loop s start_time last_log_time ps)
      else Inl (ready_timeout s))"



definition wait_for_session_ready_with_logs :: "session \<Rightarrow> rat \<Rightarrow> poll list \<Rightarrow> error + unit" where
  "wait_for_session_ready_with_logs s start_time polls = ready_loop s start_time start_time polls"

section \<open>The service\<close>

text \<open>
  \<open>SimpleClineService\<close>: the registry \<open>self.sessions\<close> is a dict, kept as an association
  list in insertion order (the order \<open>list(self.sessions.values())\<close> shows), together
  with the files the service creates, writes and deletes.
\<close>

record state =
  sessions :: "(pystr \<times> session) list"
  files :: "pystr \<rightharpoonup> pystr"

definition get_session :: "state \<Rightarrow> pystr \<Rightarrow> session option" where
  "get_session st sid = map_of (sessions st) sid"

definition list_sessions :: "state \<Rightarrow> session list" where
  "list_sessions st = map snd (sessions st)"

definition default_workspace :: pystr where
  "default_workspace = lit ''/home/newton/swe_bench_reproducer''"

definition new_session :: "pystr \<Rightarrow> pystr option \<Rightarrow> pystr \<Rightarrow> session" where
  "new_session sid workspace ts =
     \<lparr>session_id = sid,
      workspace_path = (case workspace of None \<Rightarrow> default_workspace
                        | Some w \<Rightarrow> if w = [] then default_workspace else w),
      created_at = ts, messages = [], status = lit ''initializing'', cli_process = None,
      input_file = None, output_file = None, last_response_id = None\<rparr>"

text \<open>
  What \<open>create_session\<close> takes from outside: the fresh uuid, the clock, the directory
  \<open>mkdtemp\<close> made (making it and the two empty files in it is taken to succeed), the
  pid of the spawned process or the exception of the spawn, and the polls of the
  handshake.
\<close>

record create_env =
  new_uuid :: pystr
  utcnow :: pystr
  temp_dir :: pystr
  spawned :: "error + nat"
  ready_start :: rat
  ready_polls :: "poll list"

definition create_session :: "state \<Rightarrow> pystr option \<Rightarrow> create_env \<Rightarrow> (error + session) \<times> state" where
  "create_session st workspace env =
     (let sid = new_uuid env;
          session0 = new_session sid workspace (utcnow env);
          inp = temp_dir env @ lit ''/input.txt'';
          outp = temp_dir env @ lit ''/output.txt'';
          session1 = session0\<lparr>input_file := Some inp, output_file := Some outp\<rparr>;
          st1 = st\<lparr>files := (files st)(inp \<mapsto> [], outp \<mapsto> [])\<rparr>
      in case spawned env of
           Inl e \<Rightarrow> (Inl e, st1)
         | Inr pid \<Rightarrow>
             (let session2 = session1\<lparr>cli_process := Some pid\<rparr>
              in case wait_for_session_ready_with_logs session2 (ready_start env) (ready_polls env) of
                   Inl e \<Rightarrow> (Inl e, st1)
                 | Inr u \<Rightarrow>
                     (let session3 = session2\<lparr>status := lit ''ready''\<rparr>
                      in (Inr session3,
                          st1\<lparr>sessions := AList.update sid session3 (sessions st1)\<rparr>))))"

subsection \<open>Sending a message\<close>

text \<open>
  What \<open>send_message\<close> takes from outside: two fresh uuids and two clock readings for
  the two message records, the \<open>OSError\<close> with which the input file refuses to be
  opened for writing (\<open>None\<close> when it opens), and the polls of the response wait.
\<close>

record send_env =
  user_uuid :: pystr
  user_time :: pystr
  agent_uuid :: pystr
  agent_time :: pystr
  open_error :: "error option"
  send_start :: rat
  send_polls :: "poll list"

record send_result =
  r_session_id :: pystr
  r_message_id :: pystr
  r_response :: jval
  r_status :: pystr

definition user_message :: "send_env \<Rightarrow> pystr \<Rightarrow> message" where
  "user_message env text =
     \<lparr>msg_id = user_uuid env, msg_type = lit ''user'', content = JStr text,
      timestamp = user_time env, metadata = None\<rparr>"

text \<open>\<open>response.get("response", "")\<close> and \<open>response.get("messageId")\<close>.\<close>

definition agent_message :: "send_env \<Rightarrow> jdict \<Rightarrow> message" where
  "agent_message env response =
     \<lparr>msg_id = agent_uuid env, msg_type = lit ''agent'',
      content = (case map_of response (lit ''response'') of None \<Rightarrow> JStr [] | Some v \<Rightarrow> v),
      timestamp = agent_time env,
      metadata = Some [(lit ''message_id'',
                        case map_of response (lit ''messageId'') of None \<Rightarrow> JNull | Some v \<Rightarrow> v)]\<rparr>"

text \<open>
  \<open>with open(path, 'w') as f: f.write(text)\<close>. Opening truncates or creates the file,
  unless it raises. Writing encodes the text in the locale's encoding, taken to be
  UTF-8, which has no encoding for the surrogate code points U+D800 to U+DFFF: on such
  a text \<open>write\<close> raises \<open>UnicodeEncodeError\<close> and the file stays empty.
\<close>

definition surrogate :: "nat \<Rightarrow> bool" where
  "surrogate c = (55296 \<le> c \<and> c \<le> 57343)"

definition write_file :: "error option \<Rightarrow> pystr \<Rightarrow> pystr \<Rightarrow> (pystr \<rightharpoonup> pystr) \<Rightarrow> error option \<times> (pystr \<rightharpoonup> pystr)" where
  "write_file refusal path text fs =
     (case refusal of
        Some e \<Rightarrow> (Some e, fs)
      | None \<Rightarrow>
          if list_ex surrogate text
          then (Some (UnicodeEncodeError (lit ''surrogates not allowed'')), fs(path \<mapsto> []))
          else (None, fs(path \<mapsto> text)))"

text \<open>
  The session object is shared with the registry, so every change to it is a change
  of the registry entry under the key \<open>sid\<close>. Opening a path that is \<open>None\<close> raises
  \<open>TypeError\<close> inside the \<open>try\<close>.
\<close>

definition send_message :: "(pystr \<Rightarrow> error + jdict) \<Rightarrow> state \<Rightarrow> pystr \<Rightarrow> pystr \<Rightarrow> send_env \<Rightarrow> (error + send_result) \<times> state" where
  "send_message loads st sid text env =
     (case map_of (sessions st) sid of
        None \<Rightarrow> (Inl (ValueError (lit ''Session '' @ sid @ lit '' not found'')), st)
      | Some session \<Rightarrow>
          if status session \<noteq> lit ''ready'' then
            (Inl (ValueError (lit ''Session '' @ sid @ lit '' is not ready (status: ''
                              @ status session @ lit '')'')), st)
          else
            (let session1 = session\<lparr>status := lit ''processing'',
                                    messages := messages session @ [user_message env text]\<rparr>
             in case input_file session1 of
                  None \<Rightarrow>
                    (Inl (TypeError (lit ''expected str, bytes or os.PathLike object, not NoneType'')),
                     st\<lparr>sessions := AList.update sid (session1\<lparr>status := lit ''error''\<rparr>) (sessions st)\<rparr>)
                | Some path \<Rightarrow>
                    (case write_file (open_error env) path text (files st) of
                       (Some e, fs1) \<Rightarrow>
                         (Inl e,
                          st\<lparr>files := fs1,
                             sessions := AList.update sid (session1\<lparr>status := lit ''error''\<rparr>) (sessions st)\<rparr>)
                     | (None, fs1) \<Rightarrow>
                    (let st1 = st\<lparr>files := fs1\<rparr>
                     in case wait_for_response loads (send_start env) session1 (send_polls env) of
                          Inl e \<Rightarrow>
                            (Inl e,
                             st1\<lparr>sessions := AList.update sid (session1\<lparr>status := lit ''error''\<rparr>) (sessions st1)\<rparr>)
                        | Inr (response, session2) \<Rightarrow>
                            (let agent = agent_message env response;
                                 session3 = session2\<lparr>messages := messages session2 @ [agent],
                                                     status := lit ''ready''\<rparr>
                             in (Inr \<lparr>r_session_id = sid, r_message_id = msg_id agent,
                                      r_response = content agent, r_status = lit ''success''\<rparr>,
                                 st1\<lparr>sessions := AList.update sid session3 (sessions st1)\<rparr>))))))"

subsection \<open>Stopping a session\<close>

text \<open>
  The handle in \<open>cli_process\<close> is what \<open>asyncio.create_subprocess_exec\<close> returned, an
  \<open>asyncio.subprocess.Process\<close>. Its \<open>terminate\<close> raises \<open>ProcessLookupError\<close> once the
  process has exited and its transport is closed, and it has no attribute \<open>poll\<close>
  (that is a method of \<open>subprocess.Popen\<close>), so reading it raises \<open>AttributeError\<close>.
\<close>

definition proc_terminate :: "bool \<Rightarrow> error + unit" where
  "proc_terminate transport_closed = (if transport_closed then Inl ProcessLookupError else Inr ())"

definition proc_poll :: "error + int option" where
  "proc_poll =
     Inl (AttributeError ([39] @ lit ''Process'' @ [39] @ lit '' object has no attribute ''
                          @ [39] @ lit ''poll'' @ [39]))"

definition script_path :: "pystr \<Rightarrow> pystr" where
  "script_path sid = lit ''/home/newton/cline_hackathon/persistent_session_'' @ sid @ lit ''.sh''"

text \<open>
  \<open>path and os.path.exists(path)\<close>: the path is neither \<open>None\<close> nor empty, and the file
  is there.
\<close>

definition path_exists :: "pystr option \<Rightarrow> (pystr \<rightharpoonup> pystr) \<Rightarrow> bool" where
  "path_exists path fs = (case path of None \<Rightarrow> False | Some f \<Rightarrow> f \<noteq> [] \<and> fs f \<noteq> None)"

definition unlink_if_exists :: "pystr option \<Rightarrow> (pystr \<rightharpoonup> pystr) \<Rightarrow> (pystr \<rightharpoonup> pystr)" where
  "unlink_if_exists path fs =
     (case path of None \<Rightarrow> fs | Some f \<Rightarrow> if path_exists path fs then fs(f := None) else fs)"

text \<open>
  The \<open>try\<close> block of \<open>stop_session\<close>: the exception that leaves it, if any, and the
  state as the statements before it left it.
\<close>

definition stop_session_try :: "state \<Rightarrow> pystr \<Rightarrow> session \<Rightarrow> bool \<Rightarrow> (error + unit) \<times> state" where
  "stop_session_try st sid session transport_closed =
     (let st1 = (case input_file session of
                   None \<Rightarrow> st
                 | Some f \<Rightarrow> if path_exists (input_file session) (files st)
                             then st\<lparr>files := (files st)(f \<mapsto> lit ''STOP_SESSION'')\<rparr> else st);
          terminated =
            (case cli_process session of
               None \<Rightarrow> Inr ()
             | Some pid \<Rightarrow>
                 (case proc_terminate transport_closed of
                    Inl e \<Rightarrow> Inl e
                  | Inr u \<Rightarrow>
                      (case proc_poll of
                         Inl e \<Rightarrow> Inl e
                       | Inr rc \<Rightarrow> Inr ())))
      in case terminated of
           Inl e \<Rightarrow> (Inl e, st1)
         | Inr u \<Rightarrow>
             (let fs2 = unlink_if_exists (input_file session) (files st1);
                  fs3 = unlink_if_exists (output_file session) fs2;
                  fs4 = unlink_if_exists (Some (script_path (session_id session))) fs3
              in (Inr (), st1\<lparr>files := fs4, sessions := AList.delete sid (sessions st1)\<rparr>)))"

definition stop_session :: "state \<Rightarrow> pystr \<Rightarrow> bool \<Rightarrow> bool \<times> state" where
  "stop_session st sid transport_closed =
     (case map_of (sessions st) sid of
        None \<Rightarrow> (False, st)
      | Some session \<Rightarrow>
          (case stop_session_try st sid session transport_closed of
             (Inl e, st') \<Rightarrow> (False, st')
           | (Inr u, st') \<Rightarrow> (True, st')))"

section \<open>The API route\<close>

datatype http_error = HTTPException nat pystr

text \<open>
  \<open>MessageResponse\<close>, the response model of the route: four fields of type \<open>str\<close>
  (its time stamp has a default). The service's result gives a \<open>str\<close> for three of
  them; its \<open>response\<close> is whatever JSON value the reply carried.
\<close>

record message_response =
  m_session_id :: pystr
  m_message_id :: pystr
  m_response :: pystr
  m_status :: pystr

text \<open>
  Pydantic's validation of a value for a field of type \<open>str\<close>. A \<open>str\<close> is taken as
  it is; \<open>None\<close>, a list and a dict are refused with a \<open>ValidationError\<close>. What happens
  to a number or a \<open>bool\<close> depends on the version of the library (one turns it into
  its text, the other refuses it), so that part and the text of the error are
  parameters.
\<close>

record validation =
  number_text :: "jval \<Rightarrow> pystr option"
  error_text :: "jval \<Rightarrow> pystr"

definition str_field :: "validation \<Rightarrow> jval \<Rightarrow> error + pystr" where
  "str_field pyd v =
     (case v of
        JStr t \<Rightarrow> Inr t
      | JNum n \<Rightarrow>
          (case number_text pyd v of
             Some t \<Rightarrow> Inr t | None \<Rightarrow> Inl (ValidationError (error_text pyd v)))
      | JBool b \<Rightarrow>
          (case number_text pyd v of
             Some t \<Rightarrow> Inr t | None \<Rightarrow> Inl (ValidationError (error_text pyd v)))
      | _ \<Rightarrow> Inl (ValidationError (error_text pyd v)))"

fun is_value_error :: "error \<Rightarrow> bool" where
  "is_value_error (ValueError m) = True"
| "is_value_error (JSONDecodeError m) = True"
| "is_value_error (UnicodeDecodeError m) = True"
| "is_value_error (UnicodeEncodeError m) = True"
| "is_value_error (ValidationError m) = True"
| "is_value_error _ = False"

text \<open>
  The \<open>try\<close> block of the route: the call of the service, then the building of the
  response model.
\<close>

definition route_try :: "validation \<Rightarrow> error + send_result \<Rightarrow> error + message_response" where
  "route_try pyd outcome =
     (case outcome of
        Inl e \<Rightarrow> Inl e
      | Inr result \<Rightarrow>
          (case str_field pyd (r_response result) of
             Inl e \<Rightarrow> Inl e
           | Inr t \<Rightarrow>
               Inr \<lparr>m_session_id = r_session_id result, m_message_id = r_message_id result,
                    m_response = t, m_status = r_status result\<rparr>))"

text \<open>
  The route with its two handlers: \<open>except ValueError\<close>, which also catches every
  subclass of \<open>ValueError\<close>, and \<open>except Exception\<close>.
\<close>

definition route_send_message :: "validation \<Rightarrow> (pystr \<Rightarrow> error + jdict) \<Rightarrow> state \<Rightarrow> pystr \<Rightarrow> pystr \<Rightarrow> send_env \<Rightarrow> (http_error + message_response) \<times> state" where
  "route_send_message pyd loads st sid text env =
     (case send_message loads st sid text env of
        (outcome, st') \<Rightarrow>
          (case route_try pyd outcome of
             Inr response \<Rightarrow> (Inr response, st')
           | Inl e \<Rightarrow>
               if is_value_error e then (Inl (HTTPException 404 (str_of_error e)), st')
               else (Inl (HTTPException 500 (lit ''Failed to send message: '' @ str_of_error e)), st')))"

definition status_code :: "http_error \<Rightarrow> nat" where
  "status_code h = (case h of HTTPException c d \<Rightarrow> c)"

section \<open>The review parser\<close>

record review_comment =
  c_text :: pystr
  c_user :: pystr
  c_range :: pystr
  c_filePath :: pystr
  c_timestamp :: pystr

text \<open>
  The two markers start with a code point outside ASCII (U+1F4DD, U+1F4CA). The test for
  a comment line looks for the marker without the blank after the colon, the split uses
  the marker with it.
\<close>

definition extracted_marker :: pystr where
  "extracted_marker = 128221 # lit '' Extracted:''"

definition extracted_sep :: pystr where
  "extracted_sep = 128221 # lit '' Extracted: ''"

definition summary_marker :: pystr where
  "summary_marker = 128202 # lit '' Review completed with''"

text \<open>\<open>remove old s\<close> is \<open>s.replace(old, '')\<close> for a non-empty \<open>old\<close>.\<close>

function remove :: "pystr \<Rightarrow> pystr \<Rightarrow> pystr" where
  "remove old [] = []"
| "remove old (c # cs) =
     (if old \<noteq> [] \<and> startswith (c # cs) old
      then remove old (drop (length old) (c # cs))
      else c # remove old cs)"
  by pat_completeness auto
termination
  by (relation "measure (\<lambda>(old, s). length s)") auto

definition extracted_comment :: "pystr \<Rightarrow> pystr \<Rightarrow> review_comment" where
  "extracted_comment ts comment_text =
     \<lparr>c_text = comment_text, c_user = lit ''CodeRabbit'', c_range = lit ''Unknown'',
      c_filePath = lit ''Unknown'', c_timestamp = ts\<rparr>"

definition placeholder_comment :: "pystr \<Rightarrow> review_comment" where
  "placeholder_comment ts =
     \<lparr>c_text = lit ''CodeRabbit review completed successfully. Check the output logs for detailed analysis.'',
      c_user = lit ''CodeRabbit'', c_range = lit ''Overall'',
      c_filePath = lit ''Workspace'', c_timestamp = ts\<rparr>"

text \<open>
  The text a comment line yields: \<open>line.split(sep)[1].replace('...', '').strip()\<close>,
  \<open>None\<close> when the index is out of range (\<open>IndexError\<close>, caught by \<open>continue\<close>).
\<close>

definition comment_text_of :: "pystr \<Rightarrow> pystr option" where
  "comment_text_of line =
     (case split extracted_sep line of
        first # second # rest \<Rightarrow> Some (strip (remove (lit ''...'') second))
      | _ \<Rightarrow> None)"

text \<open>
  The \<open>for line in lines\<close> loop of \<open>parse_coderabbit_output\<close>. The summary branch reads
  the expected count and logs it, catching its own exceptions; it leaves \<open>comments\<close>
  as it is.
\<close>

fun parse_lines :: "pystr \<Rightarrow> review_comment list \<Rightarrow> pystr list \<Rightarrow> review_comment list" where
  "parse_lines ts comments [] = comments"
| "parse_lines ts comments (line # lines) =
     (if contains line extracted_marker then
        (case comment_text_of line of
           None \<Rightarrow> parse_lines ts comments lines
         | Some comment_text \<Rightarrow>
             if comment_text \<noteq> [] \<and> length comment_text > 10
             then parse_lines ts (comments @ [extracted_comment ts comment_text]) lines
             else parse_lines ts comments lines)
      else if contains line summary_marker \<and> contains line (lit ''comments'')
      then parse_lines ts comments lines
      else parse_lines ts comments lines)"

definition parse_coderabbit_output :: "pystr \<Rightarrow> pystr \<Rightarrow> review_comment list" where
  "parse_coderabbit_output ts output =
     (let comments = parse_lines ts [] (split (lit [CHR 0x0A]) output)
      in if comments = [] then [placeholder_comment ts] else comments)"

text \<open>
  A line yields a comment when it contains the marker, the split has a second piece and
  the text left of that piece has more than 10 code points.
\<close>

definition yields_comment :: "pystr \<Rightarrow> bool" where
  "yields_comment line =
     (contains line extracted_marker \<and>
      (case comment_text_of line of None \<Rightarrow> False | Some comment_text \<Rightarrow> length comment_text > 10))"

section \<open>Sample data\<close>

text \<open>
  The lines and records of the examples below, and \<open>json.loads\<close> on those lines: every
  other line is taken not to parse.
\<close>

definition line1 :: pystr where
  \<open>line1 = lit ''{"success": true, "messageId": 1, "response": "done"}''\<close>

definition rec1 :: jdict where
  "rec1 = [(lit ''success'', JBool True), (lit ''messageId'', JNum (Num 1)),
           (lit ''response'', JStr (lit ''done''))]"

definition line2 :: pystr where
  \<open>line2 = lit ''{"success": true, "messageId": 2, "response": "done again"}''\<close>

definition rec2 :: jdict where
  "rec2 = [(lit ''success'', JBool True), (lit ''messageId'', JNum (Num 2)),
           (lit ''response'', JStr (lit ''done again''))]"

definition line_err :: pystr where
  \<open>line_err = lit ''{"success": false, "messageId": 1, "error": "boom"}''\<close>

definition rec_err :: jdict where
  "rec_err = [(lit ''success'', JBool False), (lit ''messageId'', JNum (Num 1)),
              (lit ''error'', JStr (lit ''boom''))]"

definition line_bad :: pystr where
  \<open>line_bad = lit ''{"success": true, "messageId": "x", "response": "late"}''\<close>

definition rec_bad :: jdict where
  "rec_bad = [(lit ''success'', JBool True), (lit ''messageId'', JStr (lit ''x'')),
              (lit ''response'', JStr (lit ''late''))]"

definition sample_loads :: "pystr \<Rightarrow> error + jdict" where
  "sample_loads line =
     (if line = line1 then Inr rec1
      else if line = line2 then Inr rec2
      else if line = line_err then Inr rec_err
      else if line = line_bad then Inr rec_bad
      else Inl (JSONDecodeError (lit ''Expecting property name enclosed in double quotes'')))"

definition sample_session :: session where
  "sample_session =
     \<lparr>session_id = lit ''s1'', workspace_path = default_workspace,
      created_at = lit ''2025-01-01T00:00:00'', messages = [], status = lit ''ready'',
      cli_process = Some 4242, input_file = Some (lit ''/tmp/c/input.txt''),
      output_file = Some (lit ''/tmp/c/output.txt''), last_response_id = None\<rparr>"

definition file_poll :: "rat \<Rightarrow> file_obs \<Rightarrow> poll" where
  "file_poll t f =
     \<lparr>now = t, returncode = None, proc_stdout = Inr [], proc_stderr = Inr [], out_file = f\<rparr>"

definition ready_text :: pystr where
  "ready_text = lit ''SESSION_READY'' @ [10]"

definition sample_state :: state where
  "sample_state =
     \<lparr>sessions = [(lit ''s1'', sample_session)],
      files = [lit ''/tmp/c/input.txt'' \<mapsto> [], lit ''/tmp/c/output.txt'' \<mapsto> ready_text]\<rparr>"

definition sample_send_env :: "poll list \<Rightarrow> send_env" where
  "sample_send_env polls =
     \<lparr>user_uuid = lit ''u1'', user_time = lit ''2025-01-01T00:01:00'',
      agent_uuid = lit ''a1'', agent_time = lit ''2025-01-01T00:01:04'',
      open_error = None, send_start = 100, send_polls = polls\<rparr>"

definition exited_poll :: "rat \<Rightarrow> file_obs \<Rightarrow> poll" where
  "exited_poll t f =
     \<lparr>now = t, returncode = Some 1, proc_stdout = Inr (lit ''boom''),
      proc_stderr = Inr (lit ''trace''), out_file = f\<rparr>"

definition undecodable_poll :: "rat \<Rightarrow> file_obs \<Rightarrow> poll" where
  "undecodable_poll t f =
     \<lparr>now = t, returncode = Some 1,
      proc_stdout = Inl (UnicodeDecodeError (lit ''invalid start byte'')),
      proc_stderr = Inr [], out_file = f\<rparr>"

definition sample_create_env :: "poll list \<Rightarrow> create_env" where
  "sample_create_env polls =
     \<lparr>new_uuid = lit ''s1'', utcnow = lit ''2025-01-01T00:00:00'', temp_dir = lit ''/tmp/c'',
      spawned = Inr 4242, ready_start = 0, ready_polls = polls\<rparr>"

definition empty_state :: state where
  "empty_state = \<lparr>sessions = [], files = Map.empty\<rparr>"

text \<open>Three review outputs: two marker lines and a summary line that claims 2 comments.\<close>

definition summary_line :: pystr where
  "summary_line = summary_marker @ lit '' 2 comments''"

definition review_short :: pystr where
  "review_short =
     extracted_sep @ lit ''Unused var'' @ [10] @
     extracted_sep @ lit ''Consider renaming this helper...'' @ [10] @
     summary_line"

definition review_long :: pystr where
  "review_long =
     extracted_sep @ lit ''Possible null dereference here'' @ [10] @
     extracted_sep @ lit ''Consider renaming this helper...'' @ [10] @
     summary_line"

definition review_plain :: pystr where
  "review_plain = lit ''Starting review'' @ [10] @ summary_line @ [10]"

text \<open>A validation that refuses numbers, with one text for every error.\<close>

definition strict_validation :: validation where
  "strict_validation =
     \<lparr>number_text = (\<lambda>v. None), error_text = (\<lambda>v. lit ''Input should be a valid string'')\<rparr>"

section \<open>Evaluating the samples\<close>

lemmas sample_defs = line1_def line2_def line_err_def rec1_def rec2_def rec_err_def sample_loads_def
  line_bad_def rec_bad_def
  sample_session_def file_poll_def ready_text_def

lemmas eval_defs = wait_for_response_def read_response_def split_def strip_def isspace_def lit_def
  Let_def sequence_of_def last_consumed_def max_wait_def sample_defs sample_state_def
  sample_send_env_def send_message_def user_message_def agent_message_def
  write_file_def surrogate_def

lemmas ready_defs = wait_for_session_ready_with_logs_def ready_timeout_def shows_ready_def
  max_wait_def check_interval_def strip_def isspace_def lit_def sample_defs exited_poll_def
  undecodable_poll_def

lemmas create_defs = create_session_def new_session_def default_workspace_def Let_def
  sample_create_env_def empty_state_def get_session_def list_sessions_def ready_defs

lemmas stop_defs = stop_session_def stop_session_try_def proc_terminate_def proc_poll_def
  unlink_if_exists_def path_exists_def script_path_def

lemmas parse_defs = parse_coderabbit_output_def comment_text_of_def yields_comment_def
  extracted_marker_def extracted_sep_def summary_marker_def extracted_comment_def
  split_def strip_def isspace_def lit_def Let_def
  summary_line_def review_short_def review_long_def review_plain_def

section \<open>Responses are consumed in increasing sequence order\<close>

lemma scan_lines_accept:
  "scan_lines loads last_id ls = Accepted r n \<Longrightarrow>
     (map_of r (lit ''response'') \<noteq> None \<or> map_of r (lit ''error'') \<noteq> None) \<and>
     num_of (sequence_of r) = Some n \<and> num_gt n last_id"
proof (induction ls)
  case Nil
  then show ?case by simp
next
  case (Cons l ls)
  then show ?case
    by (auto simp: Let_def split: if_splits sum.splits error.splits option.splits)
qed

lemma read_response_accept:
  "read_response loads last_id f = Some (r, n) \<Longrightarrow>
     (map_of r (lit ''response'') \<noteq> None \<or> map_of r (lit ''error'') \<noteq> None) \<and>
     num_of (sequence_of r) = Some n \<and> num_gt n last_id"
  unfolding read_response_def
  by (auto simp: Let_def split: file_obs.splits if_splits scan_result.splits
      dest!: scan_lines_accept)

lemma response_loop_accept:
  "response_loop loads start_time last_id s polls = Inr (r, s') \<Longrightarrow>
     (map_of r (lit ''response'') \<noteq> None \<or> map_of r (lit ''error'') \<noteq> None) \<and>
     (\<exists>n. num_of (sequence_of r) = Some n \<and> num_gt n last_id \<and>
          s' = s\<lparr>last_response_id := Some n\<rparr>)"
proof (induction polls)
  case Nil
  then show ?case by simp
next
  case (Cons p ps)
  then show ?case
    by (auto split: if_splits option.splits dest!: read_response_accept)
qed

lemma num_gt_trans: "num_gt a b \<Longrightarrow> num_gt b c \<Longrightarrow> num_gt a c"
  by (cases a; cases b; cases c) auto

lemma consumed_bounds:
  "(\<forall>n \<in> set (consumed loads s ws). num_gt n (last_consumed s)) \<and>
   sorted_wrt (\<lambda>a b. num_gt b a) (consumed loads s ws)"
proof (induction ws arbitrary: s)
  case Nil
  then show ?case by simp
next
  case (Cons w ws)
  obtain start_time polls where w: "w = (start_time, polls)" by (cases w)
  show ?case
  proof (cases "wait_for_response loads start_time s polls")
    case (Inl e)
    then show ?thesis using Cons.IH [of s] w by simp
  next
    case (Inr res)
    obtain r s' where res: "res = (r, s')" by (cases res)
    from Inr res have "response_loop loads start_time (last_consumed s) s polls = Inr (r, s')"
      by (simp add: wait_for_response_def)
    from response_loop_accept [OF this]
    obtain n where n: "num_gt n (last_consumed s)" "s' = s\<lparr>last_response_id := Some n\<rparr>"
      by blast
    then have l: "last_consumed s' = n" by (simp add: last_consumed_def)
    from Cons.IH [of s'] l n(1)
    show ?thesis using Inr res w by (auto intro: num_gt_trans)
  qed
qed

text \<open>
  Claim C1. The response wait returns a record only if it has a \<open>response\<close> or an
  \<open>error\<close> field and its sequence number is greater than the last one consumed, and it
  then stores that number in the session. Hence over any succession of waits on one
  session the numbers consumed are strictly increasing, and each is greater than the
  number the session started from.
\<close>

theorem wait_for_response_sequence_increasing:
  "(wait_for_response loads start_time s polls = Inr (r, s') \<longrightarrow>
      (map_of r (lit ''response'') \<noteq> None \<or> map_of r (lit ''error'') \<noteq> None) \<and>
      (\<exists>n. num_of (sequence_of r) = Some n \<and> num_gt n (last_consumed s) \<and>
           s' = s\<lparr>last_response_id := Some n\<rparr>)) \<and>
   (\<forall>n \<in> set (consumed loads s ws). num_gt n (last_consumed s)) \<and>
   sorted_wrt (\<lambda>a b. num_gt b a) (consumed loads s ws)"
  using response_loop_accept [of loads start_time "last_consumed s" s polls r s']
    consumed_bounds [of loads s ws]
  by (simp add: wait_for_response_def)

lemma sample_wait1:
  "wait_for_response sample_loads 0 sample_session
     [file_poll 0 Missing, file_poll 2 (Content (ready_text @ line1 @ [10]))]
   = Inr (rec1, sample_session\<lparr>last_response_id := Some (Num 1)\<rparr>)"
  by (simp add: wait_for_response_def read_response_def split_def strip_def isspace_def lit_def
      Let_def sequence_of_def last_consumed_def max_wait_def sample_defs)

lemma sample_consumed:
  "consumed sample_loads sample_session
     [(0, [file_poll 2 (Content (ready_text @ line1 @ [10]))]),
      (5, [file_poll 7 (Content (ready_text @ line1 @ [10])),
           file_poll 9 (Content (ready_text @ line1 @ [10] @ line2 @ [10]))])]
   = [Num 1, Num 2]"
  by (simp add: wait_for_response_def read_response_def split_def strip_def isspace_def lit_def
      Let_def sequence_of_def last_consumed_def max_wait_def sample_defs)

theorem wait_for_response_sequence_increasing_witness:
  "wait_for_response sample_loads 0 sample_session
     [file_poll 0 Missing, file_poll 2 (Content (ready_text @ line1 @ [10]))]
   = Inr (rec1, sample_session\<lparr>last_response_id := Some (Num 1)\<rparr>) \<and>
   map_of rec1 (lit ''response'') \<noteq> None \<and>
   num_of (sequence_of rec1) = Some (Num 1) \<and>
   num_gt (Num 1) (last_consumed sample_session) \<and>
   consumed sample_loads sample_session
     [(0, [file_poll 2 (Content (ready_text @ line1 @ [10]))]),
      (5, [file_poll 7 (Content (ready_text @ line1 @ [10])),
           file_poll 9 (Content (ready_text @ line1 @ [10] @ line2 @ [10]))])]
   = [Num 1, Num 2] \<and>
   num_gt (Num 2) (last_consumed sample_session) \<and>
   sorted_wrt (\<lambda>a b. num_gt b a) [Num 1, Num 2 :: pynum]"
  using wait_for_response_sequence_increasing [of sample_loads 0 sample_session
      "[file_poll 0 Missing, file_poll 2 (Content (ready_text @ line1 @ [10]))]"
      rec1 "sample_session\<lparr>last_response_id := Some (Num 1)\<rparr>"
      "[(0, [file_poll 2 (Content (ready_text @ line1 @ [10]))]),
        (5, [file_poll 7 (Content (ready_text @ line1 @ [10])),
             file_poll 9 (Content (ready_text @ line1 @ [10] @ line2 @ [10]))])]"]
    sample_wait1 sample_consumed
  by (simp add: rec1_def lit_def sequence_of_def last_consumed_def sample_session_def)

section \<open>Sending a message\<close>

lemma map_of_update_same: "map_of (AList.update k v al) k = Some v"
  by (simp add: update_conv')

lemma scan_lines_pass:
  "passed_over loads last_id x \<Longrightarrow>
   scan_lines loads last_id (x # ys) = scan_lines loads last_id ys"
  unfolding passed_over_def
  by (auto simp: Let_def split: if_splits sum.splits error.splits option.splits)

lemma scan_lines_skip:
  "\<forall>x \<in> set xs. passed_over loads last_id x \<Longrightarrow>
   scan_lines loads last_id (xs @ ys) = scan_lines loads last_id ys"
proof (induction xs)
  case Nil
  then show ?case by simp
next
  case (Cons a xs)
  from Cons.prems have "passed_over loads last_id a" by simp
  from scan_lines_pass [OF this, of "xs @ ys"]
  have "scan_lines loads last_id ((a # xs) @ ys) = scan_lines loads last_id (xs @ ys)"
    by (simp del: scan_lines.simps)
  with Cons show ?case by (simp del: scan_lines.simps)
qed

lemma passed_over_iff:
  "passed_over loads last_id x \<longleftrightarrow>
     \<not> startswith (strip x) (lit ''{'') \<or>
     (\<exists>m. loads (strip x) = Inl (JSONDecodeError m)) \<or>
     (\<exists>d. loads (strip x) = Inr d \<and>
          ((map_of d (lit ''response'') = None \<and> map_of d (lit ''error'') = None) \<or>
           (\<exists>i. num_of (sequence_of d) = Some i \<and> \<not> num_gt i last_id)))"
proof -
  have "startswith (strip x) (lit ''{'') \<Longrightarrow> strip x \<noteq> [] \<and> strip x \<noteq> lit ''SESSION_READY''"
    by (auto simp: lit_def)
  then show ?thesis
    unfolding passed_over_def
    by (auto simp: Let_def split: if_splits sum.splits error.splits option.splits)
qed

lemma scan_lines_last_reply:
  assumes later: "\<forall>x \<in> set after. passed_over loads last_id x"
    and brace: "startswith (strip l) (lit ''{'')"
    and parsed: "loads (strip l) = Inr r"
    and field: "map_of r (lit ''response'') = Some v"
    and seq: "num_of (sequence_of r) = Some n" "num_gt n last_id"
  shows "scan_lines loads last_id (rev (before @ l # after)) = Accepted r n"
proof -
  have ne: "strip l \<noteq> []" "strip l \<noteq> lit ''SESSION_READY''"
    using brace by (auto simp: lit_def)
  have "scan_lines loads last_id (rev after @ l # rev before)
          = scan_lines loads last_id (l # rev before)"
    using later by (intro scan_lines_skip) auto
  also have "\<dots> = Accepted r n"
    using ne brace parsed field seq by (simp add: Let_def)
  finally show ?thesis by simp
qed

lemma read_response_last_reply:
  assumes "split (lit [CHR 0x0A]) (strip raw) = before @ l # after"
    and "\<forall>x \<in> set after. passed_over loads last_id x"
    and "startswith (strip l) (lit ''{'')"
    and "loads (strip l) = Inr r"
    and "map_of r (lit ''response'') = Some v"
    and "num_of (sequence_of r) = Some n" "num_gt n last_id"
  shows "read_response loads last_id (Content raw) = Some (r, n)"
proof -
  have "strip raw \<noteq> []"
  proof
    assume "strip raw = []"
    with assms(1) have "before @ l # after = [Nil]" by (simp add: split_def)
    then have "l = []" by (cases before) auto
    with assms(3) show False by (simp add: strip_def lit_def)
  qed
  then show ?thesis
    using scan_lines_last_reply [where loads = loads and l = l and r = r and before = before,
        OF assms(2-7)] assms(1)
    by (simp add: read_response_def Let_def)
qed

lemma response_loop_prefix:
  "\<forall>q \<in> set pre. now q - start_time < max_wait \<and> read_response loads last_id (out_file q) = None \<Longrightarrow>
   response_loop loads start_time last_id s (pre @ rest) = response_loop loads start_time last_id s rest"
  by (induction pre) auto

text \<open>
  Claim C2 (the code departs from it). A reply that carries an \<open>error\<close> field and no
  \<open>response\<close> field is matched by the wait and handed back to \<open>send_message\<close>, which does
  not look at the \<open>error\<close> field: the call returns normally with status \<open>success\<close> and
  an empty response, an agent message with empty content is appended, and the session is
  \<open>ready\<close> again. Nothing is raised.
\<close>

theorem send_message_error_reply_returned_as_success:
  "fst (send_message sample_loads sample_state (lit ''s1'') (lit ''hi'')
         (sample_send_env [file_poll 102 (Content (ready_text @ line_err @ [10]))]))
   = Inr \<lparr>r_session_id = lit ''s1'', r_message_id = lit ''a1'', r_response = JStr [],
          r_status = lit ''success''\<rparr> \<and>
   map_option status (get_session (snd (send_message sample_loads sample_state (lit ''s1'') (lit ''hi'')
         (sample_send_env [file_poll 102 (Content (ready_text @ line_err @ [10]))]))) (lit ''s1''))
   = Some (lit ''ready'') \<and>
   map_option (map content \<circ> messages) (get_session (snd (send_message sample_loads sample_state (lit ''s1'') (lit ''hi'')
         (sample_send_env [file_poll 102 (Content (ready_text @ line_err @ [10]))]))) (lit ''s1''))
   = Some [JStr (lit ''hi''), JStr []]"
  by (simp add: eval_defs get_session_def)

text \<open>
  Claim C5. For a registered session whose status is not \<open>ready\<close>, \<open>send_message\<close> raises
  the not-ready \<open>ValueError\<close> and leaves the whole state as it was: no file is written
  (the input file in particular) and no message is appended to any history.
\<close>

theorem send_message_not_ready_no_effect:
  assumes "get_session st sid = Some s" and "status s \<noteq> lit ''ready''"
  shows "send_message loads st sid text env =
           (Inl (ValueError (lit ''Session '' @ sid @ lit '' is not ready (status: ''
                             @ status s @ lit '')'')), st)"
  using assms by (simp add: send_message_def get_session_def)

theorem send_message_not_ready_no_effect_witness:
  "get_session (sample_state\<lparr>sessions := [(lit ''s1'', sample_session\<lparr>status := lit ''processing''\<rparr>)]\<rparr>) (lit ''s1'')
     = Some (sample_session\<lparr>status := lit ''processing''\<rparr>) \<and>
   status (sample_session\<lparr>status := lit ''processing''\<rparr>) \<noteq> lit ''ready'' \<and>
   send_message sample_loads (sample_state\<lparr>sessions := [(lit ''s1'', sample_session\<lparr>status := lit ''processing''\<rparr>)]\<rparr>)
       (lit ''s1'') (lit ''hi'') (sample_send_env [file_poll 102 (Content (ready_text @ line1 @ [10]))])
     = (Inl (ValueError (lit ''Session s1 is not ready (status: processing)'')),
        sample_state\<lparr>sessions := [(lit ''s1'', sample_session\<lparr>status := lit ''processing''\<rparr>)]\<rparr>)"
proof -
  have h1: "get_session (sample_state\<lparr>sessions := [(lit ''s1'', sample_session\<lparr>status := lit ''processing''\<rparr>)]\<rparr>) (lit ''s1'')
     = Some (sample_session\<lparr>status := lit ''processing''\<rparr>)"
    by (simp add: get_session_def)
  have h2: "status (sample_session\<lparr>status := lit ''processing''\<rparr>) \<noteq> lit ''ready''"
    by (simp add: lit_def)
  show ?thesis
    using send_message_not_ready_no_effect [OF h1 h2, of sample_loads "lit ''hi''"
        "sample_send_env [file_poll 102 (Content (ready_text @ line1 @ [10]))]"] h1 h2
    by (simp add: lit_def)
qed

text \<open>
  Claim C6, as the code has it. A ready session receives a text that is written to
  the input file (the file opens and the text has no surrogate code point). The polls
  before poll \<open>p\<close> find no new record; at \<open>p\<close> the output file holds a reply with a
  \<open>response\<close> field \<open>v\<close> and a sequence number greater than the last one consumed, and
  the scan goes past every line after it. Then the call returns \<open>v\<close> and the id of the
  new agent message, the history grows by the user message followed by exactly one
  agent message, whose content is \<open>v\<close>, and the input file holds the text.
\<close>

theorem send_message_round_trip:
  assumes reg: "get_session st sid = Some s"
    and ready: "status s = lit ''ready''"
    and path: "input_file s = Some path"
    and written: "open_error env = None" "\<not> list_ex surrogate text"
    and polls: "send_polls env = pre @ p # post"
    and pre: "\<forall>q \<in> set pre. now q - send_start env < max_wait \<and>
                read_response loads (last_consumed s) (out_file q) = None"
    and intime: "now p - send_start env < max_wait"
    and outf: "out_file p = Content raw"
              "split (lit [CHR 0x0A]) (strip raw) = before @ l # after"
    and later: "\<forall>x \<in> set after. passed_over loads (last_consumed s) x"
    and reply: "startswith (strip l) (lit ''{'')" "loads (strip l) = Inr r"
               "map_of r (lit ''response'') = Some v"
               "num_of (sequence_of r) = Some n" "num_gt n (last_consumed s)"
  shows "fst (send_message loads st sid text env)
           = Inr \<lparr>r_session_id = sid, r_message_id = agent_uuid env, r_response = v,
                  r_status = lit ''success''\<rparr> \<and>
         (\<exists>s'. get_session (snd (send_message loads st sid text env)) sid = Some s' \<and>
            messages s' = messages s @ [user_message env text, agent_message env r] \<and>
            msg_type (agent_message env r) = lit ''agent'' \<and>
            content (agent_message env r) = v \<and>
            msg_id (agent_message env r) = agent_uuid env \<and>
            status s' = lit ''ready'' \<and> last_response_id s' = Some n) \<and>
         files (snd (send_message loads st sid text env)) path = Some text"
proof -
  let ?s1 = "s\<lparr>status := lit ''processing'', messages := messages s @ [user_message env text]\<rparr>"
  have lc: "last_consumed ?s1 = last_consumed s" by (simp add: last_consumed_def)
  have found: "read_response loads (last_consumed s) (out_file p) = Some (r, n)"
    using read_response_last_reply [where loads = loads and l = l and r = r and before = before,
        OF outf(2) later reply]
      outf(1) by simp
  have "response_loop loads (send_start env) (last_consumed s) ?s1 (pre @ p # post)
          = response_loop loads (send_start env) (last_consumed s) ?s1 (p # post)"
    using pre by (rule response_loop_prefix)
  also have "\<dots> = Inr (r, ?s1\<lparr>last_response_id := Some n\<rparr>)"
    using intime found by simp
  finally have w: "wait_for_response loads (send_start env) ?s1 (send_polls env)
                     = Inr (r, ?s1\<lparr>last_response_id := Some n\<rparr>)"
    using polls lc by (simp add: wait_for_response_def)
  have wr: "write_file (open_error env) path text (files st) = (None, (files st)(path \<mapsto> text))"
    using written by (simp add: write_file_def)
  show ?thesis
    using reg ready path w wr reply(3)
    by (simp add: send_message_def get_session_def Let_def map_of_update_same agent_message_def)
qed

text \<open>
  Claim C6 as stated fails twice. The output file holds exactly one correctly sequenced
  reply, yet: a text with a surrogate code point is not written, the call raises
  \<open>UnicodeEncodeError\<close> and no agent message is appended; and when the reply is followed
  by a record whose sequence number is a string, every pass over the file is left by a
  \<open>TypeError\<close>, the call times out and no agent message is appended.
\<close>

theorem send_message_round_trip_counterexample:
  "scan_lines sample_loads (Num 0) [line1] = Accepted rec1 (Num 1) \<and>
   scan_lines sample_loads (Num 0) [line_bad] = Raised \<and>
   fst (send_message sample_loads sample_state (lit ''s1'') (lit ''a'' @ [55296])
          (sample_send_env [file_poll 102 (Content (ready_text @ line1 @ [10]))]))
     = Inl (UnicodeEncodeError (lit ''surrogates not allowed'')) \<and>
   map_option (map msg_type \<circ> messages)
     (get_session (snd (send_message sample_loads sample_state (lit ''s1'') (lit ''a'' @ [55296])
          (sample_send_env [file_poll 102 (Content (ready_text @ line1 @ [10]))]))) (lit ''s1''))
     = Some [lit ''user''] \<and>
   fst (send_message sample_loads sample_state (lit ''s1'') (lit ''hi'')
          (sample_send_env [file_poll 102 (Content (ready_text @ line1 @ [10] @ line_bad @ [10])),
                            file_poll 104 (Content (ready_text @ line1 @ [10] @ line_bad @ [10]))]))
     = Inl (TimeoutError (lit ''No response received within 300 seconds'')) \<and>
   map_option (map msg_type \<circ> messages)
     (get_session (snd (send_message sample_loads sample_state (lit ''s1'') (lit ''hi'')
          (sample_send_env [file_poll 102 (Content (ready_text @ line1 @ [10] @ line_bad @ [10])),
                            file_poll 104 (Content (ready_text @ line1 @ [10] @ line_bad @ [10]))])))
        (lit ''s1''))
     = Some [lit ''user'']"
  by (simp add: eval_defs get_session_def)

theorem send_message_round_trip_witness:
  "get_session sample_state (lit ''s1'') = Some sample_session \<and>
   status sample_session = lit ''ready'' \<and>
   \<not> list_ex surrogate (lit ''hi'') \<and>
   read_response sample_loads (last_consumed sample_session) (Content ready_text) = None \<and>
   split (lit [CHR 0x0A]) (strip (ready_text @ line_err @ [10] @ line1 @ [10] @ lit ''done'' @ [10]))
     = [lit ''SESSION_READY'', line_err] @ line1 # [lit ''done''] \<and>
   passed_over sample_loads (last_consumed sample_session) (lit ''done'') \<and>
   sample_loads (strip line1) = Inr rec1 \<and>
   map_of rec1 (lit ''response'') = Some (JStr (lit ''done'')) \<and>
   num_of (sequence_of rec1) = Some (Num 1) \<and>
   num_gt (Num 1) (last_consumed sample_session) \<and>
   fst (send_message sample_loads sample_state (lit ''s1'') (lit ''hi'')
          (sample_send_env [file_poll 102 (Content ready_text),
             file_poll 104 (Content (ready_text @ line_err @ [10] @ line1 @ [10] @ lit ''done'' @ [10]))]))
     = Inr \<lparr>r_session_id = lit ''s1'', r_message_id = lit ''a1'',
            r_response = JStr (lit ''done''), r_status = lit ''success''\<rparr> \<and>
   map_option (map content \<circ> messages)
     (get_session (snd (send_message sample_loads sample_state (lit ''s1'') (lit ''hi'')
          (sample_send_env [file_poll 102 (Content ready_text),
             file_poll 104 (Content (ready_text @ line_err @ [10] @ line1 @ [10] @ lit ''done'' @ [10]))])))
        (lit ''s1''))
     = Some [JStr (lit ''hi''), JStr (lit ''done'')]"
proof -
  let ?raw = "ready_text @ line_err @ [10] @ line1 @ [10] @ lit ''done'' @ [10]"
  let ?env = "sample_send_env [file_poll 102 (Content ready_text), file_poll 104 (Content ?raw)]"
  have reg: "get_session sample_state (lit ''s1'') = Some sample_session"
    by (simp add: get_session_def sample_state_def)
  have ready: "status sample_session = lit ''ready''"
    by (simp add: sample_session_def)
  have path: "input_file sample_session = Some (lit ''/tmp/c/input.txt'')"
    by (simp add: sample_session_def)
  have opened: "open_error ?env = None"
    by (simp add: sample_send_env_def)
  have clean: "\<not> list_ex surrogate (lit ''hi'')"
    by (simp add: surrogate_def lit_def)
  have polls: "send_polls ?env = [file_poll 102 (Content ready_text)]
                 @ file_poll 104 (Content ?raw) # []"
    by (simp add: sample_send_env_def)
  have none: "read_response sample_loads (last_consumed sample_session) (Content ready_text) = None"
    by (simp add: eval_defs)
  have pre: "\<forall>q \<in> set [file_poll 102 (Content ready_text)].
               now q - send_start ?env < max_wait \<and>
               read_response sample_loads (last_consumed sample_session) (out_file q) = None"
    using none by (simp add: file_poll_def sample_send_env_def max_wait_def)
  have intime: "now (file_poll 104 (Content ?raw)) - send_start ?env < max_wait"
    by (simp add: file_poll_def sample_send_env_def max_wait_def)
  have outf: "out_file (file_poll 104 (Content ?raw)) = Content ?raw"
    by (simp add: file_poll_def)
  have lines: "split (lit [CHR 0x0A]) (strip ?raw)
                 = [lit ''SESSION_READY'', line_err] @ line1 # [lit ''done'']"
    by (simp add: eval_defs)
  have past: "passed_over sample_loads (last_consumed sample_session) (lit ''done'')"
    by (simp add: passed_over_def eval_defs)
  then have later: "\<forall>x \<in> set [lit ''done'']. passed_over sample_loads (last_consumed sample_session) x"
    by simp
  have brace: "startswith (strip line1) (lit ''{'')"
    by (simp add: eval_defs)
  have parsed: "sample_loads (strip line1) = Inr rec1"
    by (simp add: eval_defs)
  have field: "map_of rec1 (lit ''response'') = Some (JStr (lit ''done''))"
    by (simp add: eval_defs)
  have seq: "num_of (sequence_of rec1) = Some (Num 1)" "num_gt (Num 1) (last_consumed sample_session)"
    by (simp_all add: eval_defs)
  from send_message_round_trip [where loads = sample_loads and l = line1 and r = rec1
        and before = "[lit ''SESSION_READY'', line_err]",
      OF reg ready path opened clean polls pre intime outf lines later brace parsed field seq]
  show ?thesis
    using reg ready clean none lines past parsed field seq
    by (auto simp: agent_message_def user_message_def sample_send_env_def lit_def sample_session_def)
qed

text \<open>
  Claim C10. When \<open>send_message\<close> on a ready session fails, whatever the exception, the
  user message appended at the start of the call is still the last message of the
  history, no agent message follows it, and the session is in status \<open>error\<close>.
\<close>

theorem send_message_failure_keeps_user_message:
  assumes "get_session st sid = Some s" and "status s = lit ''ready''"
    and "send_message loads st sid text env = (Inl e, st')"
  shows "\<exists>s'. get_session st' sid = Some s' \<and>
           messages s' = messages s @ [user_message env text] \<and>
           status s' = lit ''error''"
  using assms
  by (auto simp: send_message_def get_session_def Let_def map_of_update_same
      split: option.splits sum.splits prod.splits)

theorem send_message_failure_keeps_user_message_witness:
  "get_session sample_state (lit ''s1'') = Some sample_session \<and>
   status sample_session = lit ''ready'' \<and>
   fst (send_message sample_loads sample_state (lit ''s1'') (lit ''hi'')
          (sample_send_env [file_poll 102 (Content ready_text), file_poll 500 (Content ready_text)]))
     = Inl (TimeoutError (lit ''No response received within 300 seconds'')) \<and>
   map_option messages
     (get_session (snd (send_message sample_loads sample_state (lit ''s1'') (lit ''hi'')
          (sample_send_env [file_poll 102 (Content ready_text), file_poll 500 (Content ready_text)])))
        (lit ''s1''))
     = Some [user_message (sample_send_env [file_poll 102 (Content ready_text), file_poll 500 (Content ready_text)])
               (lit ''hi'')] \<and>
   map_option status
     (get_session (snd (send_message sample_loads sample_state (lit ''s1'') (lit ''hi'')
          (sample_send_env [file_poll 102 (Content ready_text), file_poll 500 (Content ready_text)])))
        (lit ''s1''))
     = Some (lit ''error'')"
proof -
  let ?env = "sample_send_env [file_poll 102 (Content ready_text), file_poll 500 (Content ready_text)]"
  let ?run = "send_message sample_loads sample_state (lit ''s1'') (lit ''hi'') ?env"
  have reg: "get_session sample_state (lit ''s1'') = Some sample_session"
    by (simp add: get_session_def sample_state_def)
  have ready: "status sample_session = lit ''ready''"
    by (simp add: sample_session_def)
  have failed: "fst ?run = Inl (TimeoutError (lit ''No response received within 300 seconds''))"
    by (simp add: eval_defs)
  then have run: "?run = (Inl (TimeoutError (lit ''No response received within 300 seconds'')), snd ?run)"
    by (metis prod.collapse)
  from send_message_failure_keeps_user_message [OF reg ready run]
  show ?thesis
    using reg ready failed by (auto simp: sample_session_def)
qed

section \<open>The readiness handshake and session creation\<close>














section \<open>Stopping a session\<close>

lemma stop_session_with_process:
  assumes "get_session st sid = Some s" and "cli_process s = Some pid"
  shows "fst (stop_session st sid transport_closed) = False"
    and "sessions (snd (stop_session st sid transport_closed)) = sessions st"
  using assms
  by (auto simp: stop_defs get_session_def Let_def split: option.splits)

lemma stop_session_unknown:
  "get_session st sid = None \<Longrightarrow> stop_session st sid transport_closed = (False, st)"
  by (simp add: stop_session_def get_session_def)

text \<open>
  Claim C4 (the code departs from it). A session is created and registered, then
  stopped, once with the process alive and once with the process already gone. Both
  times \<open>stop_session\<close> returns \<open>False\<close> and the session is still registered, in status
  \<open>ready\<close>: the \<open>try\<close> block is left by an exception before the cleanup and the
  \<open>del\<close>, after the stop sentinel has been written to the input file.
\<close>

theorem stop_session_registered_returns_false:
  "(let st = snd (create_session empty_state None (sample_create_env [file_poll 2 (Content ready_text)]))
    in map_option status (get_session st (lit ''s1'')) = Some (lit ''ready'') \<and>
       fst (stop_session st (lit ''s1'') False) = False \<and>
       map_option status (get_session (snd (stop_session st (lit ''s1'') False)) (lit ''s1''))
         = Some (lit ''ready'') \<and>
       fst (stop_session st (lit ''s1'') True) = False \<and>
       map_option status (get_session (snd (stop_session st (lit ''s1'') True)) (lit ''s1''))
         = Some (lit ''ready'') \<and>
       files (snd (stop_session st (lit ''s1'') True)) (lit ''/tmp/c/input.txt'')
         = Some (lit ''STOP_SESSION''))"
  by (simp add: create_defs stop_defs)

section \<open>Error codes of the send route\<close>

text \<open>
  Claim C8, as the code has it. The route answers an unknown session id and a known
  session that is not \<open>ready\<close> with the same status code 404, and leaves the state as it
  was; the two answers differ in their detail text only.
\<close>

theorem route_send_message_not_found_and_not_ready:
  "(get_session st sid = None \<longrightarrow>
      route_send_message pyd loads st sid text env
        = (Inl (HTTPException 404 (lit ''Session '' @ sid @ lit '' not found'')), st)) \<and>
   (\<forall>s. get_session st sid = Some s \<and> status s \<noteq> lit ''ready'' \<longrightarrow>
      route_send_message pyd loads st sid text env
        = (Inl (HTTPException 404 (lit ''Session '' @ sid @ lit '' is not ready (status: ''
                                   @ status s @ lit '')'')), st) \<and>
      lit ''Session '' @ sid @ lit '' not found''
        \<noteq> lit ''Session '' @ sid @ lit '' is not ready (status: '' @ status s @ lit '')'')"
  by (auto simp: route_send_message_def route_try_def send_message_def get_session_def lit_def)

text \<open>
  Claim C8 as stated fails: an unknown id and a session in status \<open>processing\<close> both
  get the code 404.
\<close>

theorem route_send_message_same_code_counterexample:
  "map_sum status_code id (fst (route_send_message strict_validation sample_loads sample_state (lit ''nope'') (lit ''hi'')
        (sample_send_env []))) = Inl 404 \<and>
   map_option status (get_session
        (sample_state\<lparr>sessions := [(lit ''s1'', sample_session\<lparr>status := lit ''processing''\<rparr>)]\<rparr>)
        (lit ''s1'')) = Some (lit ''processing'') \<and>
   map_sum status_code id (fst (route_send_message strict_validation sample_loads
        (sample_state\<lparr>sessions := [(lit ''s1'', sample_session\<lparr>status := lit ''processing''\<rparr>)]\<rparr>)
        (lit ''s1'') (lit ''hi'') (sample_send_env []))) = Inl 404"
  by (simp add: route_send_message_def route_try_def status_code_def get_session_def eval_defs)

theorem route_send_message_not_found_and_not_ready_witness:
  "get_session sample_state (lit ''nope'') = None \<and>
   route_send_message strict_validation sample_loads sample_state (lit ''nope'') (lit ''hi'') (sample_send_env [])
     = (Inl (HTTPException 404 (lit ''Session nope not found'')), sample_state) \<and>
   get_session (sample_state\<lparr>sessions := [(lit ''s1'', sample_session\<lparr>status := lit ''error''\<rparr>)]\<rparr>)
        (lit ''s1'') = Some (sample_session\<lparr>status := lit ''error''\<rparr>) \<and>
   route_send_message strict_validation sample_loads
        (sample_state\<lparr>sessions := [(lit ''s1'', sample_session\<lparr>status := lit ''error''\<rparr>)]\<rparr>)
        (lit ''s1'') (lit ''hi'') (sample_send_env [])
     = (Inl (HTTPException 404 (lit ''Session s1 is not ready (status: error)'')),
        sample_state\<lparr>sessions := [(lit ''s1'', sample_session\<lparr>status := lit ''error''\<rparr>)]\<rparr>)"
proof -
  let ?busy = "sample_state\<lparr>sessions := [(lit ''s1'', sample_session\<lparr>status := lit ''error''\<rparr>)]\<rparr>"
  have a: "get_session sample_state (lit ''nope'') = None"
    by (simp add: get_session_def sample_state_def lit_def)
  have b: "get_session ?busy (lit ''s1'') = Some (sample_session\<lparr>status := lit ''error''\<rparr>)"
    by (simp add: get_session_def)
  have c: "status (sample_session\<lparr>status := lit ''error''\<rparr>) \<noteq> lit ''ready''"
    by (simp add: lit_def)
  from route_send_message_not_found_and_not_ready
         [of sample_state "lit ''nope''" strict_validation sample_loads "lit ''hi''" "sample_send_env []"]
       route_send_message_not_found_and_not_ready
         [of ?busy "lit ''s1''" strict_validation sample_loads "lit ''hi''" "sample_send_env []"]
       a b c
  show ?thesis
    by (simp add: lit_def)
qed

section \<open>The review parser\<close>

lemma parse_lines_acc:
  "parse_lines ts acc ls = acc @ parse_lines ts [] ls"
proof (induction ls arbitrary: acc)
  case Nil
  then show ?case by simp
next
  case (Cons l ls)
  show ?case
    using Cons.IH [of "acc @ [extracted_comment ts (the (comment_text_of l))]"]
      Cons.IH [of "[extracted_comment ts (the (comment_text_of l))]"] Cons.IH [of acc]
    by (auto split: option.splits)
qed

lemma parse_lines_texts:
  "map c_text (parse_lines ts [] ls) = map (the \<circ> comment_text_of) (filter yields_comment ls)"
proof (induction ls)
  case Nil
  then show ?case by simp
next
  case (Cons l ls)
  show ?case
    using Cons.IH parse_lines_acc [of ts "[extracted_comment ts (the (comment_text_of l))]" ls]
    by (auto simp: yields_comment_def extracted_comment_def split: option.splits)
qed

lemma parse_lines_length:
  "length (parse_lines ts [] ls) = length (filter yields_comment ls)"
  using arg_cong [OF parse_lines_texts [of ts ls], of length] by simp

lemma parse_lines_only_marker_lines:
  "parse_lines ts acc ls = parse_lines ts acc (filter (\<lambda>l. contains l extracted_marker) ls)"
  by (induction ls arbitrary: acc) (auto split: option.splits)

lemma parse_lines_no_marker:
  "\<forall>l \<in> set ls. \<not> contains l extracted_marker \<Longrightarrow> parse_lines ts acc ls = acc"
  by (induction ls arbitrary: acc) auto

text \<open>
  Claim C9, as the code has it. The parser returns one comment for each line that
  yields one (a marker line whose extracted text has more than 10 code points), and
  at least the placeholder: the number of comments is the number of such lines, or 1
  when there is none. Lines without the marker, the summary line among them, can be
  deleted without changing the comments read. When no line yields a comment, and so
  when no line has the marker, the result is exactly the placeholder comment.
\<close>

theorem parse_coderabbit_output_counts_long_comments:
  "length (parse_coderabbit_output ts output)
     = max 1 (length (filter yields_comment (split (lit [CHR 0x0A]) output))) \<and>
   parse_lines ts [] (split (lit [CHR 0x0A]) output)
     = parse_lines ts [] (filter (\<lambda>l. contains l extracted_marker) (split (lit [CHR 0x0A]) output)) \<and>
   ((\<forall>l \<in> set (split (lit [CHR 0x0A]) output). \<not> yields_comment l) \<longrightarrow>
      parse_coderabbit_output ts output = [placeholder_comment ts]) \<and>
   ((\<forall>l \<in> set (split (lit [CHR 0x0A]) output). \<not> contains l extracted_marker) \<longrightarrow>
      parse_coderabbit_output ts output = [placeholder_comment ts])"
proof (intro conjI impI)
  let ?ls = "split (lit [CHR 0x0A]) output"
  show "length (parse_coderabbit_output ts output) = max 1 (length (filter yields_comment ?ls))"
    using parse_lines_length [of ts ?ls]
    by (cases "parse_lines ts [] ?ls") (auto simp: parse_coderabbit_output_def Let_def)
  show "parse_lines ts [] ?ls = parse_lines ts [] (filter (\<lambda>l. contains l extracted_marker) ?ls)"
    by (rule parse_lines_only_marker_lines)
  {
    assume "\<forall>l \<in> set ?ls. \<not> yields_comment l"
    then have "filter yields_comment ?ls = []" by (simp add: filter_empty_conv)
    with parse_lines_length [of ts ?ls] have "parse_lines ts [] ?ls = []" by simp
    then show "parse_coderabbit_output ts output = [placeholder_comment ts]"
      by (simp add: parse_coderabbit_output_def)
  }
  {
    assume "\<forall>l \<in> set ?ls. \<not> contains l extracted_marker"
    from parse_lines_no_marker [OF this, of ts "[]"]
    show "parse_coderabbit_output ts output = [placeholder_comment ts]"
      by (simp add: parse_coderabbit_output_def)
  }
qed

text \<open>
  Claim C9 as stated fails: this output has two marker lines and a summary line that
  claims 2 comments, and the parser returns one comment, since the text of the first
  marker line has only 10 code points.
\<close>

theorem parse_coderabbit_output_two_markers_counterexample:
  "map (\<lambda>l. contains l extracted_marker) (split (lit [CHR 0x0A]) review_short)
     = [True, True, False] \<and>
   map (\<lambda>l. contains l summary_marker \<and> contains l (lit ''comments''))
       (split (lit [CHR 0x0A]) review_short)
     = [False, False, True] \<and>
   map c_text (parse_coderabbit_output (lit ''t'') review_short)
     = [lit ''Consider renaming this helper''] \<and>
   length (parse_coderabbit_output (lit ''t'') review_short) \<noteq> 2"
  by (simp add: parse_defs)

theorem parse_coderabbit_output_counts_long_comments_witness:
  "map yields_comment (split (lit [CHR 0x0A]) review_long) = [True, True, False] \<and>
   length (parse_coderabbit_output (lit ''t'') review_long) = 2 \<and>
   map (\<lambda>l. contains l extracted_marker) (split (lit [CHR 0x0A]) review_plain)
     = [False, False, False] \<and>
   parse_coderabbit_output (lit ''t'') review_plain = [placeholder_comment (lit ''t'')]"
proof -
  have long: "map yields_comment (split (lit [CHR 0x0A]) review_long) = [True, True, False]"
    by (simp add: parse_defs)
  then have "filter yields_comment (split (lit [CHR 0x0A]) review_long)
               = take 2 (split (lit [CHR 0x0A]) review_long)"
    by (simp add: parse_defs)
  then have two: "length (filter yields_comment (split (lit [CHR 0x0A]) review_long)) = 2"
    by (simp add: parse_defs)
  have plain: "map (\<lambda>l. contains l extracted_marker) (split (lit [CHR 0x0A]) review_plain)
     = [False, False, False]"
    by (simp add: parse_defs)
  then have none: "\<forall>l \<in> set (split (lit [CHR 0x0A]) review_plain). \<not> contains l extracted_marker"
    by (simp add: parse_defs)
  from parse_coderabbit_output_counts_long_comments [of "lit ''t''" review_long]
    parse_coderabbit_output_counts_long_comments [of "lit ''t''" review_plain]
    long two plain none
  show ?thesis by simp
qed

end
